theory Spec2Isabelle
  imports Complex_Main "HOL-Library.Word"
begin

section \<open>Python values and exceptions\<close>

text \<open>
  Exceptions are values: every function that can raise returns \<open>error + 'a\<close>, with
  \<open>Inl\<close> the exception. \<open>ValueError\<close> carries its message, since some properties
  are about the text of the message. \<open>LibraryError\<close> stands for an exception raised
  inside an external library call on an argument it does not accept (here: \<open>None\<close>
  passed as a label image); the source does not fix its class.
\<close>

datatype error =
    ValueError string
  | TypeError
  | AttributeError string
  | AssertionError
  | IndexError
  | ModuleNotFoundError string
  | LibraryError

text \<open>
  \<open>pred_label\<close> is annotated \<open>str\<close>, while \<open>visualize_batch\<close> passes the
  \<open>.item()\<close> of a tensor (a number or a boolean). The code only tests its truth value.
\<close>

datatype label = LabelStr string | LabelInt int | LabelBool bool

fun truthy :: "label \<Rightarrow> bool" where
  "truthy (LabelStr s) = (s \<noteq> [])"
| "truthy (LabelInt n) = (n \<noteq> 0)"
| "truthy (LabelBool b) = b"

section \<open>Masks\<close>

text \<open>
  A mask is the array that \<open>visualize_batch\<close> builds with
  \<open>.squeeze().int().cpu().numpy()\<close>: 32-bit signed integers. Only the values matter
  to \<open>np.max\<close> and to the in-place \<open>*= 255\<close>, so a mask is the list of its
  elements; the multiplication wraps around as it does on an int32 array.
\<close>

type_synonym mask = "32 word list"

text \<open>\<open>np.max\<close>: the largest element, read as a signed number; a zero-size array raises.\<close>

definition np_max :: "mask \<Rightarrow> error + int" where
  "np_max m =
     (case m of
        [] \<Rightarrow> Inl (ValueError ''zero-size array to reduction operation maximum which has no identity'')
      | x # xs \<Rightarrow> Inr (fold max (map sint xs) (sint x)))"

text \<open>\<open>mask *= 255\<close>, elementwise.\<close>

definition times_255 :: "mask \<Rightarrow> mask" where
  "times_255 m = map (\<lambda>v. v * 255) m"

section \<open>External functions\<close>

text \<open>
  The image operations are not defined in the files at hand: \<open>superimpose_anomaly_map\<close>,
  \<open>add_anomalous_label\<close>, \<open>add_normal_label\<close> and \<open>Denormalize\<close> come from other
  modules, \<open>mark_boundaries\<close> from skimage, \<open>cvtColor\<close> from OpenCV, the drawing of
  a figure from matplotlib. They are parameters of the model, over an arbitrary type
  \<open>'img\<close> of image arrays. What is shown in a grid is an image array or a mask.
\<close>

datatype 'img array = ImageArray 'img | MaskArray mask

text \<open>An entry of \<open>ImageGrid.images\<close>: \<open>dict(image=..., title=..., color_map=...)\<close>.\<close>

datatype 'img panel =
  Panel (panel_image: "'img array") (title: "string option") (color_map: "string option")

record 'img externals =
  superimpose_anomaly_map :: "'img \<Rightarrow> 'img \<Rightarrow> 'img"
    \<comment> \<open>\<open>superimpose_anomaly_map(anomaly_map, image, normalize=False)\<close>\<close>
  mark_boundaries :: "'img \<Rightarrow> mask \<Rightarrow> 'img"
    \<comment> \<open>\<open>mark_boundaries(image, label_img, color=(1, 0, 0), mode="thick")\<close>\<close>
  add_anomalous_label :: "'img \<Rightarrow> real \<Rightarrow> 'img"
  add_normal_label :: "'img \<Rightarrow> real \<Rightarrow> 'img"
  times_255_as_uint8 :: "'img \<Rightarrow> 'img"
    \<comment> \<open>\<open>(visualization * 255).astype(np.uint8)\<close>\<close>
  cvtColor_RGB2BGR :: "'img \<Rightarrow> 'img"
  denormalize :: "'img \<Rightarrow> 'img"
    \<comment> \<open>\<open>Denormalize()(tensor)\<close>\<close>
  plt_draw :: "nat \<Rightarrow> nat \<times> nat \<Rightarrow> 'img panel list \<Rightarrow> error + 'img"
    \<comment> \<open>\<open>plt.subplots(1, num_cols, figsize)\<close>, the \<open>imshow\<close> of every entry with
        its title, and the canvas read back as an RGB array; matplotlib may refuse\<close>

section \<open>ImageResult\<close>

text \<open>
  The dataclass. \<open>heat_map\<close> is assigned by the first statement of
  \<open>__post_init__\<close>, so every constructed object has it. \<open>segmentations\<close> is
  declared with \<open>field(init=False)\<close> and no default: until it is assigned the
  attribute does not exist, which is \<open>None\<close> here, and reading it raises
  \<open>AttributeError\<close>.
\<close>

record 'img image_result =
  image :: 'img
  pred_score :: real
  pred_label :: label
  anomaly_map :: 'img
  gt_mask :: "mask option"
  pred_mask :: "mask option"
  heat_map :: 'img
  segmentations :: "'img option"

text \<open>
  Construction: the generated \<open>__init__\<close> stores the six arguments and calls
  \<open>__post_init__\<close>. Line 52 tests the predicted mask; lines 53 and 54 scale it and
  compute the segmentations. Line 55 tests \<open>np.max(self.pred_mask)\<close> again, on the
  predicted mask as line 53 has left it, to decide whether the ground-truth mask is
  scaled. With \<open>pred_mask\<close> absent, that test compares \<open>None\<close> with a float.
\<close>

definition ImageResult_init ::
  "'img externals \<Rightarrow> 'img \<Rightarrow> real \<Rightarrow> label \<Rightarrow> 'img \<Rightarrow> mask option \<Rightarrow> mask option
     \<Rightarrow> error + 'img image_result" where
  "ImageResult_init ext img score lbl amap gt pm =
     (let self = \<lparr>image = img, pred_score = score, pred_label = lbl, anomaly_map = amap,
                  gt_mask = gt, pred_mask = pm,
                  heat_map = superimpose_anomaly_map ext amap img, segmentations = None\<rparr>
      in
      case (case pred_mask self of
              None \<Rightarrow> Inr self
            | Some p \<Rightarrow>
                (case np_max p of
                   Inl e \<Rightarrow> Inl e
                 | Inr mx \<Rightarrow>
                     if mx \<le> 1
                     then Inr (self\<lparr>pred_mask := Some (times_255 p),
                                    segmentations := Some (mark_boundaries ext img (times_255 p))\<rparr>)
                     else Inr self))
      of
        Inl e \<Rightarrow> Inl e
      | Inr self \<Rightarrow>
          (case gt_mask self of
             None \<Rightarrow> Inr self
           | Some g \<Rightarrow>
               (case pred_mask self of
                  None \<Rightarrow> Inl TypeError
                | Some p \<Rightarrow>
                    (case np_max p of
                       Inl e \<Rightarrow> Inl e
                     | Inr mx \<Rightarrow>
                         if mx \<le> 1 then Inr (self\<lparr>gt_mask := Some (times_255 g)\<rparr>)
                         else Inr self))))"

section \<open>ImageGrid\<close>

record 'img image_grid =
  images :: "'img panel list"

definition ImageGrid_init :: "'img image_grid" where
  "ImageGrid_init = \<lparr>images = []\<rparr>"

definition add_image ::
  "'img image_grid \<Rightarrow> 'img array \<Rightarrow> string option \<Rightarrow> string option \<Rightarrow> 'img image_grid" where
  "add_image self img ttl cmap = self\<lparr>images := images self @ [Panel img ttl cmap]\<rparr>"

text \<open>
  \<open>generate\<close>: one row of \<open>len(self.images)\<close> columns, figure size
  \<open>(num_cols * 3, 3)\<close>; \<open>zip(axes, self.images)\<close> pairs every entry with an axis,
  since there are \<open>num_cols\<close> axes. The result is converted from RGB to BGR.
\<close>

definition generate :: "'img externals \<Rightarrow> 'img image_grid \<Rightarrow> error + 'img" where
  "generate ext self =
     (let num_cols = length (images self);
          figure_size = (num_cols * 3, 3)
      in case plt_draw ext num_cols figure_size (images self) of
           Inl e \<Rightarrow> Inl e
         | Inr img \<Rightarrow> Inr (cvtColor_RGB2BGR ext img))"

section \<open>Visualizer\<close>

record visualizer =
  mode :: string
  task :: string

definition Visualizer_init :: "string \<Rightarrow> string \<Rightarrow> error + visualizer" where
  "Visualizer_init mode_arg task_arg =
     (if mode_arg \<notin> set [''full'', ''simple'']
      then Inl (ValueError (''Unknown visualization mode: '' @ mode_arg
                  @ ''. Please choose one of ['full', 'simple']''))
      else if task_arg \<notin> set [''classification'', ''segmentation'']
      then Inl (ValueError (''Unknown task type: '' @ mode_arg
                  @ ''. Please choose one of ['classification', 'segmentation']''))
      else Inr \<lparr>mode = mode_arg, task = task_arg\<rparr>)"

text \<open>
  The methods take \<open>self\<close> and return it with their result, as a Python method can
  assign to the attributes of \<open>self\<close>.

  The label branch shared by lines 134 to 137 and 159 to 162.
\<close>

definition image_classified :: "'img externals \<Rightarrow> 'img image_result \<Rightarrow> 'img" where
  "image_classified ext r =
     (if truthy (pred_label r) then add_anomalous_label ext (heat_map r) (pred_score r)
      else add_normal_label ext (heat_map r) (1 - pred_score r))"

text \<open>
  The grid that \<open>_visualize_full\<close> has built when it calls \<open>generate\<close> (lines 123
  to 138). The \<open>assert\<close> of line 125 raises when there is no predicted mask; the read
  of \<open>image_result.segmentations\<close> on line 131 raises when the attribute was never
  assigned. With a task that is neither of the two, the grid stays empty.
\<close>

definition visualize_full_grid ::
  "'img externals \<Rightarrow> visualizer \<Rightarrow> 'img image_result \<Rightarrow> error + 'img image_grid" where
  "visualize_full_grid ext self r =
     (let visualization = ImageGrid_init in
      if task self = ''segmentation'' then
        (case pred_mask r of
           None \<Rightarrow> Inl AssertionError
         | Some p \<Rightarrow>
             (let visualization = add_image visualization (ImageArray (image r)) (Some ''Image'') None;
                  visualization =
                    (case gt_mask r of
                       None \<Rightarrow> visualization
                     | Some g \<Rightarrow>
                         add_image visualization (MaskArray g) (Some ''Ground Truth'') (Some ''gray''));
                  visualization =
                    add_image visualization (ImageArray (heat_map r)) (Some ''Predicted Heat Map'') None;
                  visualization =
                    add_image visualization (MaskArray p) (Some ''Predicted Mask'') (Some ''gray'')
              in case segmentations r of
                   None \<Rightarrow> Inl (AttributeError ''segmentations'')
                 | Some s \<Rightarrow>
                     Inr (add_image visualization (ImageArray s) (Some ''Segmentation Result'') None)))
      else if task self = ''classification'' then
        (let visualization = add_image visualization (ImageArray (image r)) (Some ''Image'') None
         in Inr (add_image visualization (ImageArray (image_classified ext r)) (Some ''Prediction'') None))
      else Inr visualization)"

definition visualize_full ::
  "'img externals \<Rightarrow> visualizer \<Rightarrow> 'img image_result \<Rightarrow> (error + 'img) \<times> visualizer" where
  "visualize_full ext self r =
     (case visualize_full_grid ext self r of
        Inl e \<Rightarrow> (Inl e, self)
      | Inr visualization \<Rightarrow> (generate ext visualization, self))"

definition visualize_simple ::
  "'img externals \<Rightarrow> visualizer \<Rightarrow> 'img image_result \<Rightarrow> (error + 'img) \<times> visualizer" where
  "visualize_simple ext self r =
     (if task self = ''segmentation'' then
        (case pred_mask r of
           None \<Rightarrow> (Inl LibraryError, self)
         | Some p \<Rightarrow>
             (let visualization = mark_boundaries ext (heat_map r) p
              in (Inr (cvtColor_RGB2BGR ext (times_255_as_uint8 ext visualization)), self)))
      else if task self = ''classification'' then
        (Inr (cvtColor_RGB2BGR ext (image_classified ext r)), self)
      else (Inl (ValueError (''Unknown task type: '' @ task self)), self))"

definition visualize_image ::
  "'img externals \<Rightarrow> visualizer \<Rightarrow> 'img image_result \<Rightarrow> (error + 'img) \<times> visualizer" where
  "visualize_image ext self r =
     (if mode self = ''full'' then visualize_full ext self r
      else if mode self = ''simple'' then visualize_simple ext self r
      else (Inl (ValueError (''Unknown visualization mode: '' @ mode self)), self))"

text \<open>
  \<open>visualize_batch\<close> is a generator over the first dimension of
  \<open>batch["image"]\<close>. A batch holds one entry per sample under each key (a tensor,
  here the list of its slices); \<open>"pred_masks"\<close> and \<open>"mask"\<close> may be missing.
  The masks are taken as \<open>.squeeze().int().cpu().numpy()\<close> has made them. An index
  beyond a tensor raises \<open>IndexError\<close>. The keyword arguments are evaluated in the
  order they are written.
\<close>

record 'img batch =
  batch_image :: "'img list"
  batch_pred_scores :: "real list"
  batch_pred_labels :: "label list"
  batch_anomaly_maps :: "'img list"
  batch_pred_masks :: "mask list option"
  batch_mask :: "mask list option"

definition item :: "'a list \<Rightarrow> nat \<Rightarrow> error + 'a" where
  "item xs i = (if i < length xs then Inr (xs ! i) else Inl IndexError)"

definition optional_item :: "'a list option \<Rightarrow> nat \<Rightarrow> error + 'a option" where
  "optional_item xs i =
     (case xs of
        None \<Rightarrow> Inr None
      | Some ys \<Rightarrow> (case item ys i of Inl e \<Rightarrow> Inl e | Inr y \<Rightarrow> Inr (Some y)))"

definition batch_image_result ::
  "'img externals \<Rightarrow> 'img batch \<Rightarrow> nat \<Rightarrow> error + 'img image_result" where
  "batch_image_result ext b i =
     (case item (batch_image b) i of Inl e \<Rightarrow> Inl e | Inr img \<Rightarrow>
     (case item (batch_pred_scores b) i of Inl e \<Rightarrow> Inl e | Inr score \<Rightarrow>
     (case item (batch_pred_labels b) i of Inl e \<Rightarrow> Inl e | Inr lbl \<Rightarrow>
     (case item (batch_anomaly_maps b) i of Inl e \<Rightarrow> Inl e | Inr amap \<Rightarrow>
     (case optional_item (batch_pred_masks b) i of Inl e \<Rightarrow> Inl e | Inr pm \<Rightarrow>
     (case optional_item (batch_mask b) i of Inl e \<Rightarrow> Inl e | Inr gt \<Rightarrow>
        ImageResult_init ext (denormalize ext img) score lbl amap gt pm))))))"

text \<open>
  The values the generator yields, in order; an exception ends the iteration and is
  the last element.
\<close>

fun visualize_items ::
  "'img externals \<Rightarrow> visualizer \<Rightarrow> 'img batch \<Rightarrow> nat list
     \<Rightarrow> (error + 'img) list \<times> visualizer" where
  "visualize_items ext self b [] = ([], self)"
| "visualize_items ext self b (i # rest) =
     (case batch_image_result ext b i of
        Inl e \<Rightarrow> ([Inl e], self)
      | Inr r \<Rightarrow>
          (case visualize_image ext self r of
             (Inl e, self') \<Rightarrow> ([Inl e], self')
           | (Inr img, self') \<Rightarrow>
               (case visualize_items ext self' b rest of
                  (imgs, self'') \<Rightarrow> (Inr img # imgs, self''))))"

definition visualize_batch ::
  "'img externals \<Rightarrow> visualizer \<Rightarrow> 'img batch \<Rightarrow> (error + 'img) list \<times> visualizer" where
  "visualize_batch ext self b = visualize_items ext self b [0..<length (batch_image b)]"

section \<open>A term model of the external functions\<close>

text \<open>
  To evaluate the definitions on concrete inputs, the external functions are
  instantiated by constructors: a picture is the term of the calls that made it, so two
  results are equal only when the same calls were made on the same arguments.
\<close>

datatype picture =
    Pixels nat
  | Superimposed picture picture
  | Boundaries picture mask
  | Anomalous picture real
  | Normal picture real
  | Uint8 picture
  | BGR picture
  | Denormalized picture
  | Figure nat "nat \<times> nat" "picture panel list"

definition term_ext :: "picture externals" where
  "term_ext =
     \<lparr>superimpose_anomaly_map = Superimposed,
      mark_boundaries = Boundaries,
      add_anomalous_label = Anomalous,
      add_normal_label = Normal,
      times_255_as_uint8 = Uint8,
      cvtColor_RGB2BGR = BGR,
      denormalize = Denormalized,
      plt_draw = (\<lambda>n size ps. Inr (Figure n size ps))\<rparr>"

section \<open>The callbacks of the command line interface\<close>

text \<open>
  \<open>self.config[subcommand]\<close> is the parsed configuration; its attributes are the
  fields of a record. An entry of \<open>trainer.callbacks\<close> has the format the comment of
  lines 169 to 175 gives: a \<open>class_path\<close> and the \<open>init_args\<close>, of which
  \<open>__set_callbacks\<close> reads \<open>monitor\<close> and \<open>mode\<close>.
\<close>

record callback_config =
  class_path :: string
  init_args_monitor :: "string option"
  init_args_mode :: string

record config =
  trainer_callbacks :: "callback_config list option"
  trainer_default_root_dir :: string
  trainer_resume_from_checkpoint :: "string option"
  metrics_normalization_method :: "string option"
  openvino :: bool
  nncf :: "string option"
  data_image_size :: "int list"

text \<open>
  The list stored in \<open>trainer.callbacks\<close> at the end holds the configured entries
  followed by the callback objects the function has created.
\<close>

datatype callback =
    Configured callback_config
  | ModelCheckpoint string string "string option" string bool
      \<comment> \<open>dirpath, filename, monitor, mode, auto_insert_metric_name\<close>
  | LoadModelCallback string
  | TimerCallback
  | MinMaxNormalizationCallback
  | CdfNormalizationCallback
  | OpenVINOCallback "int list" string string
      \<comment> \<open>input_size, dirpath, filename\<close>
  | NNCFCallback string string string
      \<comment> \<open>the file \<open>OmegaConf.load\<close> reads, dirpath, filename\<close>

text \<open>
  What the function asks of its environment: whether a path is a file, and whether the
  two modules it imports on demand can be imported.
\<close>

record environment =
  isfile :: "string \<Rightarrow> bool"
  openvino_importable :: bool
  nncf_importable :: bool

text \<open>Truth value of an optional string: \<open>None\<close> and \<open>""\<close> are false.\<close>

definition str_truthy :: "string option \<Rightarrow> bool" where
  "str_truthy s = (case s of None \<Rightarrow> False | Some t \<Rightarrow> t \<noteq> [])"

text \<open>\<open>s.split(".")[-1]\<close>: what follows the last dot.\<close>

definition last_component :: "string \<Rightarrow> string" where
  "last_component s = rev (takeWhile (\<lambda>c. c \<noteq> CHR ''.'') (rev s))"

text \<open>\<open>os.path.join\<close> of two components (POSIX).\<close>

definition path_join :: "string \<Rightarrow> string \<Rightarrow> string" where
  "path_join a b =
     (if b \<noteq> [] \<and> hd b = CHR ''/'' then b
      else if a = [] \<or> last a = CHR ''/'' then a @ b
      else a @ ''/'' @ b)"

definition endswith :: "string \<Rightarrow> string \<Rightarrow> bool" where
  "endswith s suffix = (length suffix \<le> length s \<and> drop (length s - length suffix) s = suffix)"

text \<open>
  Lines 176 to 179: the dictionary comprehension keeps, for a key that occurs more than
  once, the last entry.
\<close>

definition callback_args :: "callback_config list \<Rightarrow> (string \<times> callback_config) list" where
  "callback_args callbacks = map (\<lambda>c. (last_component (class_path c), c)) callbacks"

definition monitor_and_mode :: "callback_config list option \<Rightarrow> string option \<times> string" where
  "monitor_and_mode cs =
     (case cs of
        None \<Rightarrow> (None, ''max'')
      | Some callbacks \<Rightarrow>
          (case map_of (rev (callback_args callbacks)) ''EarlyStopping'' of
             None \<Rightarrow> (None, ''max'')
           | Some c \<Rightarrow> (init_args_monitor c, init_args_mode c)))"

text \<open>
  \<open>__set_callbacks\<close>, block by block. Lines 163 to 196 cannot raise: the model
  checkpoint, the callback that loads a checkpoint to resume from, and the timer.
\<close>

definition checkpoint_callbacks :: "config \<Rightarrow> callback list" where
  "checkpoint_callbacks cfg =
     (let callbacks = (case trainer_callbacks cfg of None \<Rightarrow> [] | Some cs \<Rightarrow> map Configured cs);
          (monitor, mode) = monitor_and_mode (trainer_callbacks cfg);
          checkpoint = ModelCheckpoint (path_join (trainer_default_root_dir cfg) ''weights'')
                         ''model'' monitor mode False;
          callbacks = callbacks @ [checkpoint];
          callbacks =
            (case trainer_resume_from_checkpoint cfg of
               None \<Rightarrow> callbacks
             | Some ckpt \<Rightarrow> if ckpt \<noteq> [] then callbacks @ [LoadModelCallback ckpt] else callbacks)
      in callbacks @ [TimerCallback])"

text \<open>Lines 201 to 210, on the list built so far.\<close>

definition add_normalization :: "string option \<Rightarrow> callback list \<Rightarrow> error + callback list" where
  "add_normalization normalization callbacks =
     (case normalization of
        None \<Rightarrow> Inr callbacks
      | Some n \<Rightarrow>
          if n \<noteq> [] then
            (if n = ''min_max'' then Inr (callbacks @ [MinMaxNormalizationCallback])
             else if n = ''cdf'' then Inr (callbacks @ [CdfNormalizationCallback])
             else Inl (ValueError (''Unknown normalization type '' @ n @ ''. '' @ [CHR 0x0A]
                         @ ''Available types are either None, min_max or cdf'')))
          else Inr callbacks)"

text \<open>Lines 213 to 241: the exclusion of OpenVINO with NNCF, then the two exports.\<close>

definition add_export :: "environment \<Rightarrow> config \<Rightarrow> callback list \<Rightarrow> error + callback list" where
  "add_export env cfg callbacks =
     (if openvino cfg \<and> str_truthy (nncf cfg)
      then Inl (ValueError ''OpenVINO and NNCF cannot be set simultaneously.'')
      else
        (case (if openvino cfg then
                 (if openvino_importable env
                  then Inr (callbacks @ [OpenVINOCallback (data_image_size cfg)
                              (path_join (trainer_default_root_dir cfg) ''compressed'') ''model''])
                  else Inl (ModuleNotFoundError ''anomalib.utils.callbacks.openvino''))
               else Inr callbacks)
         of
           Inl e \<Rightarrow> Inl e
         | Inr callbacks \<Rightarrow>
             (case nncf cfg of
                None \<Rightarrow> Inr callbacks
              | Some path \<Rightarrow>
                  if path \<noteq> [] then
                    (if isfile env path \<and> endswith path ''.yaml'' then
                       (if nncf_importable env
                        then Inr (callbacks @ [NNCFCallback path
                                    (path_join (trainer_default_root_dir cfg) ''compressed'') ''model''])
                        else Inl (ModuleNotFoundError ''anomalib.core.callbacks.nncf_callback''))
                     else Inl (ValueError
                            (''--nncf expects a path to nncf config which is a yaml file, but got '' @ path)))
                  else Inr callbacks)))"

text \<open>
  The whole function: the value it stores in \<open>trainer.callbacks\<close>, or the exception
  that leaves it.
\<close>

definition set_callbacks :: "environment \<Rightarrow> config \<Rightarrow> error + callback list" where
  "set_callbacks env cfg =
     (case add_normalization (metrics_normalization_method cfg) (checkpoint_callbacks cfg) of
        Inl e \<Rightarrow> Inl e
      | Inr callbacks \<Rightarrow> add_export env cfg callbacks)"

text \<open>
  The configuration that \<open>add_arguments_to_parser\<close> gives when nothing is set on
  the command line: \<open>metrics.normalization_method\<close> is \<open>"min_max"\<close>,
  \<open>--openvino\<close> is \<open>False\<close> and \<open>--nncf\<close> is absent; there are no trainer
  callbacks and no checkpoint to resume from. The root directory and the image size are
  examples.
\<close>

definition default_config :: config where
  "default_config =
     \<lparr>trainer_callbacks = None,
      trainer_default_root_dir = ''./results'',
      trainer_resume_from_checkpoint = None,
      metrics_normalization_method = Some ''min_max'',
      openvino = False,
      nncf = None,
      data_image_size = [256, 256]\<rparr>"

definition permissive_environment :: environment where
  "permissive_environment =
     \<lparr>isfile = (\<lambda>path. True), openvino_importable = True, nncf_importable = True\<rparr>"

section \<open>Construction of an ImageResult\<close>

text \<open>
  Claim C1 says that construction scales each mask given with values in [0, 1] to the
  range 0 to 255, leaves a mask already in that range as it is, and decides for the
  ground-truth mask from the ground-truth mask's own values. The code decides for the
  ground-truth mask from the predicted mask, after the predicted mask has been scaled.
  With both masks binary and an anomalous pixel predicted, the predicted mask becomes
  0/255 and the ground-truth mask stays 0/1; with nothing predicted, a ground-truth
  mask that is already 0/255 is multiplied once more.
\<close>

theorem ImageResult_init_gt_mask_follows_pred_mask:
  "ImageResult_init ext img score lbl amap (Some [0, 1]) (Some [0, 1]) =
     Inr \<lparr>image = img, pred_score = score, pred_label = lbl, anomaly_map = amap,
          gt_mask = Some [0, 1], pred_mask = Some [0, 255],
          heat_map = superimpose_anomaly_map ext amap img,
          segmentations = Some (mark_boundaries ext img [0, 255])\<rparr>
   \<and> ImageResult_init ext img score lbl amap (Some [0, 255]) (Some [0, 0]) =
     Inr \<lparr>image = img, pred_score = score, pred_label = lbl, anomaly_map = amap,
          gt_mask = Some [0, 65025], pred_mask = Some [0, 0],
          heat_map = superimpose_anomaly_map ext amap img,
          segmentations = Some (mark_boundaries ext img [0, 0])\<rparr>"
  by (simp add: ImageResult_init_def np_max_def times_255_def)

text \<open>
  Claim C9: constructing an ImageResult with a ground-truth mask and no predicted mask
  raises an exception during construction, whatever the other arguments are: line 55
  takes the maximum of the absent predicted mask and compares it with 1.0.
\<close>

theorem ImageResult_init_gt_without_pred_raises:
  "ImageResult_init ext img score lbl amap (Some g) None = Inl TypeError"
  by (simp add: ImageResult_init_def)

lemma ImageResult_init_segmentations:
  assumes "ImageResult_init ext img score lbl amap gt pm = Inr r"
  shows "segmentations r \<noteq> None \<longleftrightarrow> (\<exists>p mx. pm = Some p \<and> np_max p = Inr mx \<and> mx \<le> 1)"
  using assms
  by (auto simp: ImageResult_init_def Let_def split: option.splits sum.splits if_splits)

lemma ImageResult_init_no_pred_mask:
  assumes "ImageResult_init ext img score lbl amap gt None = Inr r"
  shows "pred_mask r = None"
  using assms
  by (auto simp: ImageResult_init_def Let_def split: option.splits sum.splits if_splits)

lemma ImageResult_init_large_pred_mask:
  assumes "ImageResult_init ext img score lbl amap gt (Some p) = Inr r"
    and "np_max p = Inr mx" and "1 < mx"
  shows "pred_mask r = Some p \<and> segmentations r = None"
  using assms
  by (auto simp: ImageResult_init_def Let_def split: option.splits sum.splits if_splits)

section \<open>Construction of a Visualizer\<close>

lemma visualize_full_self: "snd (visualize_full ext self r) = self"
  by (simp add: visualize_full_def split: sum.splits)

lemma visualize_simple_self: "snd (visualize_simple ext self r) = self"
  by (simp add: visualize_simple_def split: option.splits)

lemma visualize_image_self: "snd (visualize_image ext self r) = self"
  by (simp add: visualize_image_def visualize_full_self visualize_simple_self)

lemma visualize_items_self: "snd (visualize_items ext self b idxs) = self"
proof (induction idxs arbitrary: self)
  case Nil
  show ?case by simp
next
  case (Cons i rest)
  show ?case
  proof (cases "batch_image_result ext b i")
    case (Inl e)
    then show ?thesis by simp
  next
    case made: (Inr r)
    obtain res self' where v: "visualize_image ext self r = (res, self')"
      by (cases "visualize_image ext self r")
    then have s: "self' = self"
      using visualize_image_self [of ext self r] by simp
    show ?thesis
    proof (cases res)
      case (Inl e)
      with made v s show ?thesis by simp
    next
      case (Inr img)
      obtain imgs self'' where w: "visualize_items ext self b rest = (imgs, self'')"
        by (cases "visualize_items ext self b rest")
      with Cons.IH [of self] have "self'' = self" by simp
      with made Inr v s w show ?thesis by simp
    qed
  qed
qed

lemma visualize_batch_self: "snd (visualize_batch ext self b) = self"
  by (simp add: visualize_batch_def visualize_items_self)

text \<open>
  Claim C2: constructing a Visualizer with a mode other than "full" and "simple", or
  with a task other than "classification" and "segmentation", raises a ValueError; with
  a mode and a task among these, construction succeeds, the object stores the two
  arguments, and no method of the class (\<open>visualize_image\<close>, \<open>_visualize_full\<close>,
  \<open>_visualize_simple\<close>, \<open>visualize_batch\<close>) changes them.
\<close>

theorem Visualizer_init_validates:
  "(mode_arg \<notin> {''full'', ''simple''} \<or> task_arg \<notin> {''classification'', ''segmentation''}
      \<longrightarrow> (\<exists>msg. Visualizer_init mode_arg task_arg = Inl (ValueError msg)))
   \<and> (mode_arg \<in> {''full'', ''simple''} \<and> task_arg \<in> {''classification'', ''segmentation''}
      \<longrightarrow> (\<exists>self. Visualizer_init mode_arg task_arg = Inr self
             \<and> mode self = mode_arg \<and> task self = task_arg
             \<and> (\<forall>ext r. snd (visualize_image ext self r) = self
                    \<and> snd (visualize_full ext self r) = self
                    \<and> snd (visualize_simple ext self r) = self)
             \<and> (\<forall>ext b. snd (visualize_batch ext self b) = self)))"
  by (auto simp: Visualizer_init_def visualize_image_self visualize_full_self
        visualize_simple_self visualize_batch_self)

theorem Visualizer_init_validates_witness:
  "''fancy'' \<notin> {''full'', ''simple''}
   \<and> Visualizer_init ''fancy'' ''segmentation'' =
       Inl (ValueError ''Unknown visualization mode: fancy. Please choose one of ['full', 'simple']'')
   \<and> ''regression'' \<notin> {''classification'', ''segmentation''}
   \<and> (\<exists>msg. Visualizer_init ''simple'' ''regression'' = Inl (ValueError msg))
   \<and> ''full'' \<in> {''full'', ''simple''} \<and> ''segmentation'' \<in> {''classification'', ''segmentation''}
   \<and> Visualizer_init ''full'' ''segmentation'' = Inr \<lparr>mode = ''full'', task = ''segmentation''\<rparr>"
  using Visualizer_init_validates [of "''fancy''" "''segmentation''"]
    Visualizer_init_validates [of "''simple''" "''regression''"]
    Visualizer_init_validates [of "''full''" "''segmentation''"]
  by (simp add: Visualizer_init_def)

text \<open>
  Claim C10: with a valid mode and an unsupported task, the message of the ValueError
  reports the mode argument after "Unknown task type: ", not the task argument.
\<close>

theorem Visualizer_init_task_message_embeds_mode:
  "mode_arg \<in> {''full'', ''simple''} \<Longrightarrow> task_arg \<notin> {''classification'', ''segmentation''} \<Longrightarrow>
   Visualizer_init mode_arg task_arg =
     Inl (ValueError (''Unknown task type: '' @ mode_arg
            @ ''. Please choose one of ['classification', 'segmentation']''))"
  by (auto simp: Visualizer_init_def)

theorem Visualizer_init_task_message_embeds_mode_witness:
  "''full'' \<in> {''full'', ''simple''} \<and> ''regression'' \<notin> {''classification'', ''segmentation''}
   \<and> Visualizer_init ''full'' ''regression'' =
       Inl (ValueError
         ''Unknown task type: full. Please choose one of ['classification', 'segmentation']'')"
  using Visualizer_init_task_message_embeds_mode [of "''full''" "''regression''"]
  by simp

section \<open>Visualizing one image\<close>

text \<open>
  Claim C3: with mode "simple" and task "segmentation", for an ImageResult that has a
  predicted mask, \<open>visualize_image\<close> returns the boundary overlay of the heat map and
  the predicted mask (\<open>mark_boundaries\<close>), multiplied by 255, cast to uint8 and
  converted from RGB to BGR. The result is a function of the inputs.
\<close>

theorem visualize_image_simple_segmentation:
  "mode self = ''simple'' \<Longrightarrow> task self = ''segmentation'' \<Longrightarrow> pred_mask r = Some p \<Longrightarrow>
   fst (visualize_image ext self r) =
     Inr (cvtColor_RGB2BGR ext (times_255_as_uint8 ext (mark_boundaries ext (heat_map r) p)))"
  by (simp add: visualize_image_def visualize_simple_def)

theorem visualize_image_simple_segmentation_witness:
  "ImageResult_init term_ext (Pixels 0) 0.9 (LabelInt 1) (Pixels 1) None (Some [0, 1]) =
     Inr \<lparr>image = Pixels 0, pred_score = 0.9, pred_label = LabelInt 1, anomaly_map = Pixels 1,
          gt_mask = None, pred_mask = Some [0, 255],
          heat_map = Superimposed (Pixels 1) (Pixels 0),
          segmentations = Some (Boundaries (Pixels 0) [0, 255])\<rparr>
   \<and> fst (visualize_image term_ext \<lparr>mode = ''simple'', task = ''segmentation''\<rparr>
        \<lparr>image = Pixels 0, pred_score = 0.9, pred_label = LabelInt 1, anomaly_map = Pixels 1,
         gt_mask = None, pred_mask = Some [0, 255],
         heat_map = Superimposed (Pixels 1) (Pixels 0),
         segmentations = Some (Boundaries (Pixels 0) [0, 255])\<rparr>) =
     Inr (BGR (Uint8 (Boundaries (Superimposed (Pixels 1) (Pixels 0)) [0, 255])))"
  using visualize_image_simple_segmentation
    [of "\<lparr>mode = ''simple'', task = ''segmentation''\<rparr>"
        "\<lparr>image = Pixels 0, pred_score = 0.9, pred_label = LabelInt 1, anomaly_map = Pixels 1,
         gt_mask = None, pred_mask = Some [0, 255],
         heat_map = Superimposed (Pixels 1) (Pixels 0),
         segmentations = Some (Boundaries (Pixels 0) [0, 255])\<rparr>"
        "[0, 255]" term_ext]
  by (simp add: ImageResult_init_def np_max_def times_255_def term_ext_def)

text \<open>
  Claim C4: with mode "full" and task "classification", for an ImageResult whose
  \<open>pred_label\<close> is true, \<open>visualize_image\<close> renders a grid of exactly two panels:
  the original image, then the heat map with the anomalous label and the prediction score.
\<close>

theorem visualize_image_full_classification:
  "mode self = ''full'' \<Longrightarrow> task self = ''classification'' \<Longrightarrow> truthy (pred_label r) \<Longrightarrow>
   (\<exists>grid. visualize_full_grid ext self r = Inr grid
      \<and> images grid =
          [Panel (ImageArray (image r)) (Some ''Image'') None,
           Panel (ImageArray (add_anomalous_label ext (heat_map r) (pred_score r)))
             (Some ''Prediction'') None]
      \<and> length (images grid) = 2
      \<and> fst (visualize_image ext self r) = generate ext grid)"
  by (simp add: visualize_image_def visualize_full_def visualize_full_grid_def
        ImageGrid_init_def add_image_def image_classified_def)

theorem visualize_image_full_classification_witness:
  "truthy (LabelInt 1)
   \<and> fst (visualize_image term_ext \<lparr>mode = ''full'', task = ''classification''\<rparr>
        \<lparr>image = Pixels 0, pred_score = 0.9, pred_label = LabelInt 1, anomaly_map = Pixels 1,
         gt_mask = None, pred_mask = None,
         heat_map = Superimposed (Pixels 1) (Pixels 0), segmentations = None\<rparr>) =
     Inr (BGR (Figure 2 (6, 3)
       [Panel (ImageArray (Pixels 0)) (Some ''Image'') None,
        Panel (ImageArray (Anomalous (Superimposed (Pixels 1) (Pixels 0)) 0.9))
          (Some ''Prediction'') None]))"
  using visualize_image_full_classification
    [of "\<lparr>mode = ''full'', task = ''classification''\<rparr>"
        "\<lparr>image = Pixels 0, pred_score = 0.9, pred_label = LabelInt 1, anomaly_map = Pixels 1,
         gt_mask = None, pred_mask = None,
         heat_map = Superimposed (Pixels 1) (Pixels 0), segmentations = None\<rparr>"
        term_ext]
  by (auto simp: generate_def term_ext_def)

text \<open>
  Claim C5: with mode "full" and task "segmentation", every ImageResult that has a
  predicted mask is laid out, from left to right, as original image, ground-truth mask
  (if and only if present), heat map, predicted mask, segmentation overlay. The code
  does not do this for a predicted mask that is already in the range 0 to 255: line 54
  computes the segmentations under the test of line 52 only, so the constructed result
  has a predicted mask, passes the \<open>assert\<close> of line 125, and line 131 raises
  AttributeError where the docstring of \<open>_visualize_full\<close> promises the
  segmentations "if available". The simple mode renders the same result.
\<close>

theorem full_segmentation_scaled_pred_mask_raises:
  "ImageResult_init ext img score lbl amap None (Some [0, 255]) =
     Inr \<lparr>image = img, pred_score = score, pred_label = lbl, anomaly_map = amap,
          gt_mask = None, pred_mask = Some [0, 255],
          heat_map = superimpose_anomaly_map ext amap img, segmentations = None\<rparr>
   \<and> fst (visualize_image ext \<lparr>mode = ''full'', task = ''segmentation''\<rparr>
        \<lparr>image = img, pred_score = score, pred_label = lbl, anomaly_map = amap,
         gt_mask = None, pred_mask = Some [0, 255],
         heat_map = superimpose_anomaly_map ext amap img, segmentations = None\<rparr>) =
     Inl (AttributeError ''segmentations'')
   \<and> fst (visualize_image ext \<lparr>mode = ''simple'', task = ''segmentation''\<rparr>
        \<lparr>image = img, pred_score = score, pred_label = lbl, anomaly_map = amap,
         gt_mask = None, pred_mask = Some [0, 255],
         heat_map = superimpose_anomaly_map ext amap img, segmentations = None\<rparr>) =
     Inr (cvtColor_RGB2BGR ext (times_255_as_uint8 ext
            (mark_boundaries ext (superimpose_anomaly_map ext amap img) [0, 255])))"
  by (simp add: ImageResult_init_def np_max_def visualize_image_def visualize_simple_def
        visualize_full_def visualize_full_grid_def ImageGrid_init_def add_image_def)

text \<open>
  Claim C8 says that \<open>segmentations\<close> is assigned only when the predicted mask is
  present with a maximum of at most 1.0, and that full-mode segmentation visualization
  of a result without it (no predicted mask, or a predicted mask above 1.0) fails with
  an attribute error. Without a predicted mask the \<open>assert\<close> of line 125 fails
  first: the exception is an AssertionError.
\<close>

theorem missing_pred_mask_assertion_counterexample:
  "ImageResult_init term_ext (Pixels 0) 0.9 (LabelInt 1) (Pixels 1) None None =
     Inr \<lparr>image = Pixels 0, pred_score = 0.9, pred_label = LabelInt 1, anomaly_map = Pixels 1,
          gt_mask = None, pred_mask = None,
          heat_map = Superimposed (Pixels 1) (Pixels 0), segmentations = None\<rparr>
   \<and> fst (visualize_image term_ext \<lparr>mode = ''full'', task = ''segmentation''\<rparr>
        \<lparr>image = Pixels 0, pred_score = 0.9, pred_label = LabelInt 1, anomaly_map = Pixels 1,
         gt_mask = None, pred_mask = None,
         heat_map = Superimposed (Pixels 1) (Pixels 0), segmentations = None\<rparr>) =
     Inl AssertionError
   \<and> AssertionError \<noteq> AttributeError ''segmentations''"
  by (simp add: ImageResult_init_def term_ext_def visualize_image_def
        visualize_full_def visualize_full_grid_def)

text \<open>
  Claim C8, amended: for every constructed ImageResult, \<open>segmentations\<close> is set
  exactly when a predicted mask was given with a maximum of at most 1.0. Full-mode
  segmentation visualization of a result constructed without a predicted mask fails
  with an assertion error, and of a result constructed from a predicted mask whose
  maximum exceeds 1.0 with an attribute error; neither returns an image.
\<close>

theorem unset_segmentations_fail:
  assumes "ImageResult_init ext img score lbl amap gt pm = Inr r"
    and "mode self = ''full''" and "task self = ''segmentation''"
  shows "(segmentations r \<noteq> None \<longleftrightarrow> (\<exists>p mx. pm = Some p \<and> np_max p = Inr mx \<and> mx \<le> 1))
       \<and> (pm = None \<longrightarrow>
            segmentations r = None \<and> fst (visualize_image ext self r) = Inl AssertionError)
       \<and> (\<forall>p mx. pm = Some p \<and> np_max p = Inr mx \<and> 1 < mx \<longrightarrow>
            segmentations r = None
            \<and> fst (visualize_image ext self r) = Inl (AttributeError ''segmentations''))"
proof (intro conjI allI impI)
  show "segmentations r \<noteq> None \<longleftrightarrow> (\<exists>p mx. pm = Some p \<and> np_max p = Inr mx \<and> mx \<le> 1)"
    by (rule ImageResult_init_segmentations [OF assms(1)])
next
  assume "pm = None"
  then show "segmentations r = None"
    using ImageResult_init_segmentations [OF assms(1)] by simp
next
  assume "pm = None"
  with assms(1) have "pred_mask r = None"
    by (simp add: ImageResult_init_no_pred_mask)
  then show "fst (visualize_image ext self r) = Inl AssertionError"
    using assms(2,3) by (simp add: visualize_image_def visualize_full_def visualize_full_grid_def)
next
  fix p mx
  assume h: "pm = Some p \<and> np_max p = Inr mx \<and> 1 < mx"
  with assms(1) have *: "pred_mask r = Some p \<and> segmentations r = None"
    using ImageResult_init_large_pred_mask [of ext img score lbl amap gt p r mx] by simp
  then show "segmentations r = None" by simp
  from * show "fst (visualize_image ext self r) = Inl (AttributeError ''segmentations'')"
    using assms(2,3)
    by (simp add: visualize_image_def visualize_full_def visualize_full_grid_def Let_def)
qed

theorem unset_segmentations_fail_witness:
  "ImageResult_init term_ext (Pixels 0) 0.9 (LabelInt 1) (Pixels 1) None (Some [0, 255]) =
     Inr \<lparr>image = Pixels 0, pred_score = 0.9, pred_label = LabelInt 1, anomaly_map = Pixels 1,
          gt_mask = None, pred_mask = Some [0, 255],
          heat_map = Superimposed (Pixels 1) (Pixels 0), segmentations = None\<rparr>
   \<and> np_max [0, 255] = Inr 255 \<and> (1::int) < 255
   \<and> fst (visualize_image term_ext \<lparr>mode = ''full'', task = ''segmentation''\<rparr>
        \<lparr>image = Pixels 0, pred_score = 0.9, pred_label = LabelInt 1, anomaly_map = Pixels 1,
         gt_mask = None, pred_mask = Some [0, 255],
         heat_map = Superimposed (Pixels 1) (Pixels 0), segmentations = None\<rparr>) =
     Inl (AttributeError ''segmentations'')
   \<and> ImageResult_init term_ext (Pixels 0) 0.9 (LabelInt 1) (Pixels 1) None (Some [0, 1]) =
     Inr \<lparr>image = Pixels 0, pred_score = 0.9, pred_label = LabelInt 1, anomaly_map = Pixels 1,
          gt_mask = None, pred_mask = Some [0, 255],
          heat_map = Superimposed (Pixels 1) (Pixels 0),
          segmentations = Some (Boundaries (Pixels 0) [0, 255])\<rparr>"
proof -
  have made: "ImageResult_init term_ext (Pixels 0) 0.9 (LabelInt 1) (Pixels 1) None (Some [0, 255]) =
     Inr \<lparr>image = Pixels 0, pred_score = 0.9, pred_label = LabelInt 1, anomaly_map = Pixels 1,
          gt_mask = None, pred_mask = Some [0, 255],
          heat_map = Superimposed (Pixels 1) (Pixels 0), segmentations = None\<rparr>"
    by (simp add: ImageResult_init_def np_max_def term_ext_def)
  have mx: "np_max [0, 255] = Inr 255"
    by (simp add: np_max_def)
  have small: "ImageResult_init term_ext (Pixels 0) 0.9 (LabelInt 1) (Pixels 1) None (Some [0, 1]) =
     Inr \<lparr>image = Pixels 0, pred_score = 0.9, pred_label = LabelInt 1, anomaly_map = Pixels 1,
          gt_mask = None, pred_mask = Some [0, 255],
          heat_map = Superimposed (Pixels 1) (Pixels 0),
          segmentations = Some (Boundaries (Pixels 0) [0, 255])\<rparr>"
    by (simp add: ImageResult_init_def np_max_def times_255_def term_ext_def)
  from unset_segmentations_fail
    [OF made, of "\<lparr>mode = ''full'', task = ''segmentation''\<rparr>"] mx
  have "fst (visualize_image term_ext \<lparr>mode = ''full'', task = ''segmentation''\<rparr>
        \<lparr>image = Pixels 0, pred_score = 0.9, pred_label = LabelInt 1, anomaly_map = Pixels 1,
         gt_mask = None, pred_mask = Some [0, 255],
         heat_map = Superimposed (Pixels 1) (Pixels 0), segmentations = None\<rparr>) =
     Inl (AttributeError ''segmentations'')"
    by simp
  with made mx small show ?thesis by simp
qed

section \<open>The callback pipeline\<close>

lemma count_list_Configured:
  "\<forall>c. x \<noteq> Configured c \<Longrightarrow> count_list (map Configured cs) x = 0"
  by (induction cs) auto

lemma checkpoint_callbacks_no_MinMax:
  "count_list (checkpoint_callbacks cfg) MinMaxNormalizationCallback = 0"
  by (simp add: checkpoint_callbacks_def Let_def count_list_Configured
        split: option.splits prod.splits)

lemma checkpoint_callbacks_no_Cdf:
  "count_list (checkpoint_callbacks cfg) CdfNormalizationCallback = 0"
  by (simp add: checkpoint_callbacks_def Let_def count_list_Configured
        split: option.splits prod.splits)

lemma add_export_count:
  "add_export env cfg cbs = Inr cbs' \<Longrightarrow>
   x = MinMaxNormalizationCallback \<or> x = CdfNormalizationCallback \<Longrightarrow>
   count_list cbs' x = count_list cbs x"
  by (auto simp: add_export_def split: if_splits option.splits sum.splits)

lemma add_normalization_count:
  "add_normalization n cbs = Inr cbs' \<Longrightarrow>
     count_list cbs' MinMaxNormalizationCallback =
       count_list cbs MinMaxNormalizationCallback + (if n = Some ''min_max'' then 1 else 0)
   \<and> count_list cbs' CdfNormalizationCallback =
       count_list cbs CdfNormalizationCallback + (if n = Some ''cdf'' then 1 else 0)"
  by (auto simp: add_normalization_def split: if_splits option.splits)

lemma add_normalization_unknown:
  "n \<notin> {[], ''min_max'', ''cdf''} \<Longrightarrow>
   add_normalization (Some n) cbs =
     Inl (ValueError (''Unknown normalization type '' @ n @ ''. '' @ [CHR 0x0A]
            @ ''Available types are either None, min_max or cdf''))"
  by (simp add: add_normalization_def)

lemma add_normalization_known:
  "n \<in> {None, Some [], Some ''min_max'', Some ''cdf''} \<Longrightarrow>
   \<exists>cbs'. add_normalization n cbs = Inr cbs'"
  by (auto simp: add_normalization_def)

lemma add_normalization_error:
  "add_normalization n cbs = Inl e \<Longrightarrow>
   \<exists>m. n = Some m \<and> m \<notin> {[], ''min_max'', ''cdf''}
     \<and> e = ValueError (''Unknown normalization type '' @ m @ ''. '' @ [CHR 0x0A]
              @ ''Available types are either None, min_max or cdf'')"
  by (auto simp: add_normalization_def split: if_splits option.splits)

lemma add_export_not_unknown:
  "add_export env cfg cbs \<noteq> Inl (ValueError (''Unknown normalization type '' @ m))"
  by (auto simp: add_export_def split: if_splits option.splits sum.splits)

lemma add_export_both:
  "openvino cfg \<Longrightarrow> str_truthy (nncf cfg) \<Longrightarrow>
   add_export env cfg cbs = Inl (ValueError ''OpenVINO and NNCF cannot be set simultaneously.'')"
  by (simp add: add_export_def)

lemma add_export_not_both:
  "\<not> (openvino cfg \<and> str_truthy (nncf cfg)) \<Longrightarrow>
   add_export env cfg cbs \<noteq> Inl (ValueError ''OpenVINO and NNCF cannot be set simultaneously.'')"
  by (auto simp: add_export_def split: if_splits option.splits sum.splits)

lemma set_callbacks_count:
  assumes ok: "set_callbacks env cfg = Inr cbs"
  shows "count_list cbs MinMaxNormalizationCallback =
           (if metrics_normalization_method cfg = Some ''min_max'' then 1 else 0)
       \<and> count_list cbs CdfNormalizationCallback =
           (if metrics_normalization_method cfg = Some ''cdf'' then 1 else 0)"
proof -
  from ok obtain mid
    where mid: "add_normalization (metrics_normalization_method cfg) (checkpoint_callbacks cfg) = Inr mid"
      and ex: "add_export env cfg mid = Inr cbs"
    by (auto simp: set_callbacks_def split: sum.splits)
  from add_normalization_count [OF mid] add_export_count [OF ex]
  show ?thesis
    by (simp add: checkpoint_callbacks_no_MinMax checkpoint_callbacks_no_Cdf)
qed

lemma set_callbacks_unknown:
  assumes "metrics_normalization_method cfg = Some n" and "n \<notin> {[], ''min_max'', ''cdf''}"
  shows "set_callbacks env cfg =
           Inl (ValueError (''Unknown normalization type '' @ n @ ''. '' @ [CHR 0x0A]
                  @ ''Available types are either None, min_max or cdf''))"
  using assms by (simp add: set_callbacks_def add_normalization_unknown)

lemma set_callbacks_unknown_only:
  assumes h: "set_callbacks env cfg =
                Inl (ValueError (''Unknown normalization type '' @ n @ ''. '' @ [CHR 0x0A]
                       @ ''Available types are either None, min_max or cdf''))"
  shows "metrics_normalization_method cfg = Some n \<and> n \<notin> {[], ''min_max'', ''cdf''}"
proof (cases "add_normalization (metrics_normalization_method cfg) (checkpoint_callbacks cfg)")
  case (Inl e)
  with h have "e = ValueError (''Unknown normalization type '' @ n @ ''. '' @ [CHR 0x0A]
                     @ ''Available types are either None, min_max or cdf'')"
    by (simp add: set_callbacks_def)
  with add_normalization_error [OF Inl] show ?thesis by auto
next
  case (Inr mid)
  with h have "add_export env cfg mid =
      Inl (ValueError (''Unknown normalization type ''
             @ (n @ ''. '' @ [CHR 0x0A] @ ''Available types are either None, min_max or cdf'')))"
    by (simp add: set_callbacks_def)
  with add_export_not_unknown show ?thesis by blast
qed

text \<open>
  Claim C6: for every configuration with the OpenVINO flag set and a non-empty NNCF
  path, \<open>__set_callbacks\<close> raises a ValueError and stores no callbacks, so nothing
  is trained: the error of line 214 when the normalization method is one of the known
  ones, the normalization error of line 208 otherwise. With at most one of the two set,
  the error of line 214 is not raised.
\<close>

theorem set_callbacks_openvino_nncf_exclusive:
  "(openvino cfg \<and> str_truthy (nncf cfg) \<longrightarrow>
      (\<exists>msg. set_callbacks env cfg = Inl (ValueError msg))
    \<and> (metrics_normalization_method cfg \<in> {None, Some [], Some ''min_max'', Some ''cdf''} \<longrightarrow>
         set_callbacks env cfg =
           Inl (ValueError ''OpenVINO and NNCF cannot be set simultaneously.'')))
   \<and> (\<not> (openvino cfg \<and> str_truthy (nncf cfg)) \<longrightarrow>
        set_callbacks env cfg \<noteq>
          Inl (ValueError ''OpenVINO and NNCF cannot be set simultaneously.''))"
proof (intro conjI impI)
  assume both: "openvino cfg \<and> str_truthy (nncf cfg)"
  show "\<exists>msg. set_callbacks env cfg = Inl (ValueError msg)"
  proof (cases "add_normalization (metrics_normalization_method cfg) (checkpoint_callbacks cfg)")
    case (Inl e)
    with add_normalization_error [OF Inl] show ?thesis
      by (auto simp: set_callbacks_def)
  next
    case (Inr mid)
    with both show ?thesis
      by (simp add: set_callbacks_def add_export_both)
  qed
next
  assume both: "openvino cfg \<and> str_truthy (nncf cfg)"
    and "metrics_normalization_method cfg \<in> {None, Some [], Some ''min_max'', Some ''cdf''}"
  then obtain mid
    where "add_normalization (metrics_normalization_method cfg) (checkpoint_callbacks cfg) = Inr mid"
    using add_normalization_known by blast
  with both
  show "set_callbacks env cfg = Inl (ValueError ''OpenVINO and NNCF cannot be set simultaneously.'')"
    by (simp add: set_callbacks_def add_export_both)
next
  assume nb: "\<not> (openvino cfg \<and> str_truthy (nncf cfg))"
  show "set_callbacks env cfg \<noteq> Inl (ValueError ''OpenVINO and NNCF cannot be set simultaneously.'')"
  proof (cases "add_normalization (metrics_normalization_method cfg) (checkpoint_callbacks cfg)")
    case (Inl e)
    with add_normalization_error [OF Inl] show ?thesis
      by (auto simp: set_callbacks_def)
  next
    case (Inr mid)
    with add_export_not_both [OF nb] show ?thesis
      by (simp add: set_callbacks_def)
  qed
qed

theorem set_callbacks_openvino_nncf_exclusive_witness:
  "openvino (default_config\<lparr>openvino := True, nncf := Some ''nncf.yaml''\<rparr>)
   \<and> str_truthy (nncf (default_config\<lparr>openvino := True, nncf := Some ''nncf.yaml''\<rparr>))
   \<and> set_callbacks permissive_environment
        (default_config\<lparr>openvino := True, nncf := Some ''nncf.yaml''\<rparr>) =
       Inl (ValueError ''OpenVINO and NNCF cannot be set simultaneously.'')
   \<and> \<not> (openvino (default_config\<lparr>nncf := Some ''nncf.yaml''\<rparr>)
          \<and> str_truthy (nncf (default_config\<lparr>nncf := Some ''nncf.yaml''\<rparr>)))
   \<and> set_callbacks permissive_environment (default_config\<lparr>nncf := Some ''nncf.yaml''\<rparr>) =
       Inr [ModelCheckpoint ''./results/weights'' ''model'' None ''max'' False,
            TimerCallback,
            MinMaxNormalizationCallback,
            NNCFCallback ''nncf.yaml'' ''./results/compressed'' ''model'']"
  using set_callbacks_openvino_nncf_exclusive
    [of "default_config\<lparr>openvino := True, nncf := Some ''nncf.yaml''\<rparr>" permissive_environment]
    set_callbacks_openvino_nncf_exclusive
    [of "default_config\<lparr>nncf := Some ''nncf.yaml''\<rparr>" permissive_environment]
  by (simp add: default_config_def permissive_environment_def str_truthy_def set_callbacks_def
        add_normalization_def add_export_def checkpoint_callbacks_def monitor_and_mode_def
        path_join_def endswith_def)

text \<open>
  Claim C7: in the list that \<open>__set_callbacks\<close> stores, the min-max normalization
  callback occurs (once) exactly when \<open>metrics.normalization_method\<close> is
  \<open>"min_max"\<close> and the CDF normalization callback exactly when it is \<open>"cdf"\<close>, so
  neither occurs when the method is \<open>None\<close> or empty; every other non-empty value
  raises the ValueError that names the value and the available types, and only such a
  value raises it.
\<close>

theorem set_callbacks_normalization:
  "(\<forall>cbs. set_callbacks env cfg = Inr cbs \<longrightarrow>
      count_list cbs MinMaxNormalizationCallback =
        (if metrics_normalization_method cfg = Some ''min_max'' then 1 else 0)
      \<and> count_list cbs CdfNormalizationCallback =
        (if metrics_normalization_method cfg = Some ''cdf'' then 1 else 0))
   \<and> (\<forall>n. metrics_normalization_method cfg = Some n \<and> n \<notin> {[], ''min_max'', ''cdf''} \<longrightarrow>
        set_callbacks env cfg =
          Inl (ValueError (''Unknown normalization type '' @ n @ ''. '' @ [CHR 0x0A]
                 @ ''Available types are either None, min_max or cdf'')))
   \<and> (\<forall>n. set_callbacks env cfg =
          Inl (ValueError (''Unknown normalization type '' @ n @ ''. '' @ [CHR 0x0A]
                 @ ''Available types are either None, min_max or cdf''))
        \<longrightarrow> metrics_normalization_method cfg = Some n \<and> n \<notin> {[], ''min_max'', ''cdf''})"
  using set_callbacks_count [of env cfg] set_callbacks_unknown [of cfg _ env]
    set_callbacks_unknown_only [of env cfg]
  by blast

theorem set_callbacks_normalization_witness:
  "set_callbacks permissive_environment default_config =
     Inr [ModelCheckpoint ''./results/weights'' ''model'' None ''max'' False,
          TimerCallback,
          MinMaxNormalizationCallback]
   \<and> count_list [ModelCheckpoint ''./results/weights'' ''model'' None ''max'' False,
          TimerCallback,
          MinMaxNormalizationCallback] MinMaxNormalizationCallback = 1
   \<and> set_callbacks permissive_environment
        (default_config\<lparr>metrics_normalization_method := Some ''cdf''\<rparr>) =
     Inr [ModelCheckpoint ''./results/weights'' ''model'' None ''max'' False,
          TimerCallback,
          CdfNormalizationCallback]
   \<and> set_callbacks permissive_environment
        (default_config\<lparr>metrics_normalization_method := None\<rparr>) =
     Inr [ModelCheckpoint ''./results/weights'' ''model'' None ''max'' False,
          TimerCallback]
   \<and> metrics_normalization_method (default_config\<lparr>metrics_normalization_method := Some ''zscore''\<rparr>)
       = Some ''zscore''
   \<and> ''zscore'' \<notin> {[], ''min_max'', ''cdf''}
   \<and> set_callbacks permissive_environment
        (default_config\<lparr>metrics_normalization_method := Some ''zscore''\<rparr>) =
     Inl (ValueError (''Unknown normalization type zscore. '' @ [CHR 0x0A]
            @ ''Available types are either None, min_max or cdf''))"
  using set_callbacks_normalization [of permissive_environment default_config]
    set_callbacks_normalization
      [of permissive_environment "default_config\<lparr>metrics_normalization_method := Some ''zscore''\<rparr>"]
  by (simp add: default_config_def permissive_environment_def str_truthy_def set_callbacks_def
        add_normalization_def add_export_def checkpoint_callbacks_def monitor_and_mode_def
        path_join_def)

end
